theory Spec2Isabelle
  imports Complex_Main
begin

section \<open>Data model of the application store (stores/appStore)\<close>

text \<open>
  JavaScript numbers are modelled as reals: the values the store and the generators
  handle are finite (JSON carries no NaN or infinity), and no property below depends on
  rounding.  \<open>Date.now()\<close> yields a whole number of milliseconds and is passed to every
  operation that reads the clock as an explicit argument of type \<open>nat\<close>.

  Record fields keep the names of the TypeScript interfaces; \<open>id\<close> and \<open>notes\<close> are
  written \<open>frame_id\<close>, \<open>project_id\<close> and \<open>frame_notes\<close>.  An optional or nullable field
  is an \<open>option\<close>.
\<close>

type_synonym number = real

record FrameParams =
  fov :: number
  lighting :: number
  hdrBloom :: number
  colorTemp :: number
  contrast :: number
  cameraAngle :: string
  composition :: string

record Frame =
  frame_id :: string
  imageUrl :: string
  prompt :: string
  params :: FrameParams
  timestamp :: number
  frame_notes :: "string option"

record SceneProject =
  project_id :: string
  name :: string
  description :: string
  genre :: string
  frames :: "Frame list"
  createdAt :: number
  updatedAt :: number
  backendId :: "string option"

record GenerationProgress =
  step :: number
  totalSteps :: number
  message :: string
  isComplete :: bool

text \<open>The values of \<open>jsonEditorContent\<close> have the TypeScript type \<open>unknown\<close>.\<close>

typedecl unknown

record AppState =
  demoMode :: bool
  currentProject :: "SceneProject option"
  isGenerating :: bool
  generationProgress :: "GenerationProgress option"
  selectedFrameId :: "string option"
  jsonEditorContent :: "string \<rightharpoonup> unknown"
  projects :: "SceneProject list"

text \<open>The initial values given to \<open>create\<close>.\<close>

definition initialState :: AppState where
  "initialState =
     \<lparr>demoMode = False, currentProject = None, isGenerating = False,
      generationProgress = None, selectedFrameId = None,
      jsonEditorContent = Map.empty, projects = []\<rparr>"

section \<open>Store operations\<close>

text \<open>
  Every action is one call of zustand's \<open>set\<close>: the returned partial object is merged
  into the state, and returning \<open>state\<close> itself changes nothing.
\<close>

definition setDemoMode :: "bool \<Rightarrow> AppState \<Rightarrow> AppState" where
  "setDemoMode enabled state = state\<lparr>demoMode := enabled\<rparr>"

definition setCurrentProject :: "SceneProject option \<Rightarrow> AppState \<Rightarrow> AppState" where
  "setCurrentProject project state = state\<lparr>currentProject := project\<rparr>"

definition setIsGenerating :: "bool \<Rightarrow> AppState \<Rightarrow> AppState" where
  "setIsGenerating generating state = state\<lparr>isGenerating := generating\<rparr>"

definition setGenerationProgress :: "GenerationProgress option \<Rightarrow> AppState \<Rightarrow> AppState" where
  "setGenerationProgress progress state = state\<lparr>generationProgress := progress\<rparr>"

definition setSelectedFrameId :: "string option \<Rightarrow> AppState \<Rightarrow> AppState" where
  "setSelectedFrameId i state = state\<lparr>selectedFrameId := i\<rparr>"

definition addProject :: "SceneProject \<Rightarrow> AppState \<Rightarrow> AppState" where
  "addProject project state = state\<lparr>projects := projects state @ [project]\<rparr>"

text \<open>\<open>state.currentProject?.id === x\<close>: false when there is no current project.\<close>

definition currentProjectHasId :: "AppState \<Rightarrow> string \<Rightarrow> bool" where
  "currentProjectHasId state x =
     (case currentProject state of None \<Rightarrow> False | Some cp \<Rightarrow> project_id cp = x)"

definition updateProject :: "SceneProject \<Rightarrow> AppState \<Rightarrow> AppState" where
  "updateProject project state =
     state\<lparr>projects :=
             map (\<lambda>p. if project_id p = project_id project then project else p) (projects state),
           currentProject :=
             (if currentProjectHasId state (project_id project) then Some project
              else currentProject state)\<rparr>"

definition deleteProject :: "string \<Rightarrow> AppState \<Rightarrow> AppState" where
  "deleteProject i state =
     state\<lparr>projects := filter (\<lambda>p. project_id p \<noteq> i) (projects state),
           currentProject :=
             (if currentProjectHasId state i then None else currentProject state)\<rparr>"

text \<open>
  The four frame actions.  \<open>now\<close> is the value \<open>Date.now()\<close> returns inside the action.
  \<open>writeBack\<close> is the shared tail of the four: the updated project becomes the current
  project and replaces every entry of \<open>projects\<close> that has its id.
\<close>

definition writeBack :: "SceneProject \<Rightarrow> AppState \<Rightarrow> AppState" where
  "writeBack updatedProject state =
     state\<lparr>currentProject := Some updatedProject,
           projects :=
             map (\<lambda>p. if project_id p = project_id updatedProject then updatedProject else p)
               (projects state)\<rparr>"

definition addFrame :: "nat \<Rightarrow> Frame \<Rightarrow> AppState \<Rightarrow> AppState" where
  "addFrame now frame state =
     (case currentProject state of
        None \<Rightarrow> state
      | Some cp \<Rightarrow>
          writeBack (cp\<lparr>frames := frames cp @ [frame], updatedAt := real now\<rparr>) state)"

definition updateFrame :: "nat \<Rightarrow> Frame \<Rightarrow> AppState \<Rightarrow> AppState" where
  "updateFrame now frame state =
     (case currentProject state of
        None \<Rightarrow> state
      | Some cp \<Rightarrow>
          writeBack
            (cp\<lparr>frames := map (\<lambda>f. if frame_id f = frame_id frame then frame else f) (frames cp),
                updatedAt := real now\<rparr>) state)"

definition deleteFrame :: "nat \<Rightarrow> string \<Rightarrow> AppState \<Rightarrow> AppState" where
  "deleteFrame now i state =
     (case currentProject state of
        None \<Rightarrow> state
      | Some cp \<Rightarrow>
          (writeBack
             (cp\<lparr>frames := filter (\<lambda>f. frame_id f \<noteq> i) (frames cp), updatedAt := real now\<rparr>)
             state)
          \<lparr>selectedFrameId :=
             (if selectedFrameId state = Some i then None else selectedFrameId state)\<rparr>)"

definition reorderFrames :: "nat \<Rightarrow> Frame list \<Rightarrow> AppState \<Rightarrow> AppState" where
  "reorderFrames now fs state =
     (case currentProject state of
        None \<Rightarrow> state
      | Some cp \<Rightarrow> writeBack (cp\<lparr>frames := fs, updatedAt := real now\<rparr>) state)"

text \<open>A call of one of the four frame actions, with the clock value it reads.\<close>

datatype frame_call =
    AddFrame nat Frame
  | UpdateFrame nat Frame
  | DeleteFrame nat string
  | ReorderFrames nat "Frame list"

fun call :: "frame_call \<Rightarrow> AppState \<Rightarrow> AppState" where
  "call (AddFrame now f) state = addFrame now f state"
| "call (UpdateFrame now f) state = updateFrame now f state"
| "call (DeleteFrame now i) state = deleteFrame now i state"
| "call (ReorderFrames now fs) state = reorderFrames now fs state"

text \<open>The states after each call of a sequence, in order.\<close>

fun trace :: "AppState \<Rightarrow> frame_call list \<Rightarrow> AppState list" where
  "trace state [] = []"
| "trace state (c # cs) = call c state # trace (call c state) cs"

text \<open>
  The consistency property of the specification: every entry of \<open>projects\<close> with the id
  of the current project has the current project's frame list.
\<close>

definition framesInSync :: "AppState \<Rightarrow> bool" where
  "framesInSync state =
     (case currentProject state of
        None \<Rightarrow> True
      | Some cp \<Rightarrow>
          list_all (\<lambda>p. project_id p = project_id cp \<longrightarrow> frames p = frames cp) (projects state))"

section \<open>Persistence (the \<open>persist\<close> options of the store)\<close>

text \<open>The object \<open>partialize\<close> returns: the two fields written to local storage.\<close>

record Snapshot =
  saved_demoMode :: bool
  saved_projects :: "SceneProject list"

definition partialize :: "AppState \<Rightarrow> Snapshot" where
  "partialize state = \<lparr>saved_demoMode = demoMode state, saved_projects = projects state\<rparr>"

text \<open>
  Modelled from the spec: the reload step is done by the \<open>persist\<close> middleware of the
  zustand library and by the browser's JSON codec, neither of which is part of the
  sources.  The specification describes it as: the stored record holds \<open>demoMode\<close> and
  \<open>projects\<close>; on reload those two are restored, and selection and generation state are
  rebuilt fresh.  The snapshot is merged over the initial state; the JSON text between
  \<open>partialize\<close> and the merge is taken to reproduce the snapshot.
\<close>

definition rehydrate :: "Snapshot \<Rightarrow> AppState" where
  "rehydrate snap =
     initialState\<lparr>demoMode := saved_demoMode snap, projects := saved_projects snap\<rparr>"

section \<open>Demo data and the simulated generator (api/mockData)\<close>

definition demoFrameImages :: "string list" where
  "demoFrameImages =
     [''https://images.unsplash.com/photo-1534447677768-be436bb09401?w=800&h=450&fit=crop'',
      ''https://images.unsplash.com/photo-1519608487953-e999c86e7455?w=800&h=450&fit=crop'',
      ''https://images.unsplash.com/photo-1478760329108-5c3ed9d495a0?w=800&h=450&fit=crop'',
      ''https://images.unsplash.com/photo-1493246507139-91e8fad9978e?w=800&h=450&fit=crop'',
      ''https://images.unsplash.com/photo-1504253163759-c23fccaebb55?w=800&h=450&fit=crop'',
      ''https://images.unsplash.com/photo-1517483000871-1dbf64a6e1c6?w=800&h=450&fit=crop'']"

definition defaultParams :: FrameParams where
  "defaultParams =
     \<lparr>fov = 50, lighting = 60, hdrBloom = 30, colorTemp = 5500, contrast = 50,
      cameraAngle = ''eye-level'', composition = ''rule-of-thirds''\<rparr>"

definition generationSteps :: "(nat \<times> string) list" where
  "generationSteps =
     [(1, ''Analyzing scene description...''),
      (2, ''Breaking down narrative beats...''),
      (3, ''Structuring JSON parameters...''),
      (4, ''Optimizing camera placement...''),
      (5, ''Generating HDR frames...''),
      (6, ''Applying post-processing...''),
      (7, ''Finalizing storyboard...'')]"

text \<open>Decimal rendering of a whole number, as a template literal prints it.\<close>

fun show_nat :: "nat \<Rightarrow> string" where
  "show_nat n =
     (if n < 10 then [char_of (48 + n)] else show_nat (n div 10) @ [char_of (48 + n mod 10)])"

text \<open>
  The outside world of the generators.  \<open>random k\<close> and \<open>clock k\<close> are the results of
  \<open>Math.random()\<close> and \<open>Date.now()\<close> at reading site \<open>k\<close>: every place that reads one
  of them inside a call gets an index of its own, so that a statement about all
  \<open>random\<close> and \<open>clock\<close> covers every run.  The four endpoints answer the HTTP requests;
  \<open>jobEndpoint\<close> and \<open>projectEndpoint\<close> take the number of the polling attempt, since
  their answers change over time.  \<open>dateGetTime s\<close> is \<open>new Date(s).getTime()\<close>.

  A request ends in one of three ways: \<open>Throws m\<close>, when \<open>fetch\<close> or the reading of the
  JSON body throws an error with message \<open>m\<close>; \<open>NotOk t\<close>, a response whose \<open>ok\<close> is
  false and whose \<open>statusText\<close> is \<open>t\<close>; \<open>Ok b\<close>, a response with the JSON body \<open>b\<close>.
  Every request is answered: a request that never settles is outside the model.  The
  bodies are typed as the client reads them, a field that may be missing being an
  \<open>option\<close>; the prefix \<open>raw_\<close> marks a field of a fetched frame where the name is
  already taken by the store's records.
\<close>

datatype 'a fetched =
    Throws string
  | NotOk string
  | Ok 'a

record JobData =
  created_id :: string
  created_project_id :: "string option"

record Job =
  status :: string
  progress_step :: "number option"
  progress_message :: "string option"
  error_message :: "string option"
  job_project_id :: "string option"

record RawParams =
  raw_fov :: "number option"
  raw_lighting :: "number option"
  hdr_bloom :: "number option"
  raw_hdrBloom :: "number option"
  color_temp :: "number option"
  raw_colorTemp :: "number option"
  raw_contrast :: "number option"
  camera_angle :: "string option"
  raw_cameraAngle :: "string option"
  raw_composition :: "string option"

record RawFrame =
  raw_id :: string
  image_url :: string
  raw_prompt :: string
  raw_params :: "RawParams option"
  created_at :: string
  raw_notes :: "string option"

record RawProject =
  raw_frames :: "RawFrame list option"

record Env =
  random :: "nat \<Rightarrow> number"
  clock :: "nat \<Rightarrow> nat"
  generateEndpoint :: "string \<Rightarrow> string \<Rightarrow> FrameParams \<Rightarrow> JobData fetched"
  refineEndpoint :: "string \<Rightarrow> FrameParams \<Rightarrow> JobData fetched"
  jobEndpoint :: "string \<Rightarrow> nat \<Rightarrow> Job fetched"
  projectEndpoint :: "string option \<Rightarrow> nat \<Rightarrow> RawProject fetched"
  dateGetTime :: "string \<Rightarrow> number"

text \<open>
  \<open>mockGenerateResponse\<close>.  The step loop reports each of the seven steps and waits;
  the wait of step \<open>i \<noteq> 4\<close> reads \<open>Math.random()\<close> (sites 0 to 5).  Frame \<open>i\<close> reads
  \<open>Math.random()\<close> at sites \<open>6 + 3 i\<close>, \<open>7 + 3 i\<close>, \<open>8 + 3 i\<close> (fov, lighting, hdrBloom)
  and \<open>Date.now()\<close> at sites \<open>2 i\<close> (id) and \<open>2 i + 1\<close> (timestamp).
\<close>

definition stepDelay :: "Env \<Rightarrow> nat \<Rightarrow> number" where
  "stepDelay env i =
     (if i = 4 then 1500 else 600 + random env (if i < 4 then i else i - 1) * 400)"

definition frameCount :: nat where
  "frameCount = 6"

definition framePrompts :: "string \<Rightarrow> string list" where
  "framePrompts p =
     [p @ '' - Opening establishing shot'',
      p @ '' - Medium shot with character focus'',
      p @ '' - Close-up detail shot'',
      p @ '' - Wide angle dramatic moment'',
      p @ '' - Over-shoulder perspective'',
      p @ '' - Final climactic frame'']"

definition mockFrame :: "Env \<Rightarrow> string \<Rightarrow> FrameParams \<Rightarrow> nat \<Rightarrow> Frame" where
  "mockFrame env p ps i =
     \<lparr>frame_id = ''frame-'' @ show_nat (clock env (2 * i)) @ ''-'' @ show_nat i,
      imageUrl = demoFrameImages ! (i mod length demoFrameImages),
      prompt = framePrompts p ! i,
      params = ps
        \<lparr>fov := max 24 (min 120 (fov ps + (random env (6 + 3 * i) - 0.5) * 15)),
         lighting := max 0 (min 100 (lighting ps + (random env (7 + 3 * i) - 0.5) * 20)),
         hdrBloom := max 0 (min 100 (hdrBloom ps + (random env (8 + 3 * i) - 0.5) * 15)),
         cameraAngle :=
           (if i = 0 then ''eye-level'' else if i = 3 then ''low-angle''
            else if i = 4 then ''over-shoulder'' else cameraAngle ps)\<rparr>,
      timestamp = real (clock env (2 * i + 1)) + real i * 100,
      frame_notes =
        (if i = 0 then Some ''Opening shot - establish mood and setting'' else None)\<rparr>"

text \<open>
  The result of \<open>mockGenerateResponse\<close>: the calls of \<open>onProgress\<close> in order, the total
  time waited, and the frames.
\<close>

record MockRun =
  mock_reports :: "(number \<times> string) list"
  mock_waited :: number
  mock_frames :: "Frame list"

definition mockGenerateResponse :: "Env \<Rightarrow> string \<Rightarrow> FrameParams \<Rightarrow> MockRun" where
  "mockGenerateResponse env p ps =
     \<lparr>mock_reports =
        map (\<lambda>i. (real (i + 1), snd (generationSteps ! i))) [0..<length generationSteps],
      mock_waited = sum_list (map (stepDelay env) [0..<length generationSteps]),
      mock_frames = map (mockFrame env p ps) [0..<frameCount]\<rparr>"

section \<open>Polling a generation job (hooks/useGenerator)\<close>

text \<open>
  JavaScript's \<open>a || b\<close> on a field that may be absent.  \<open>None\<close> stands for a field that
  is missing (or \<open>null\<close>); a number is falsy when it is 0 and a string when it is empty.
  \<open>orNum a b\<close> is \<open>a || b\<close> with \<open>b\<close> another field, \<open>numOr a d\<close> is \<open>a || d\<close> with \<open>d\<close> a
  literal.
\<close>

definition truthyNum :: "number option \<Rightarrow> bool" where
  "truthyNum a = (case a of None \<Rightarrow> False | Some v \<Rightarrow> v \<noteq> 0)"

definition truthyStr :: "string option \<Rightarrow> bool" where
  "truthyStr a = (case a of None \<Rightarrow> False | Some v \<Rightarrow> v \<noteq> [])"

definition orNum :: "number option \<Rightarrow> number option \<Rightarrow> number option" where
  "orNum a b = (if truthyNum a then a else b)"

definition orStr :: "string option \<Rightarrow> string option \<Rightarrow> string option" where
  "orStr a b = (if truthyStr a then a else b)"

definition numOr :: "number option \<Rightarrow> number \<Rightarrow> number" where
  "numOr a d = (case a of None \<Rightarrow> d | Some v \<Rightarrow> if v \<noteq> 0 then v else d)"

definition strOr :: "string option \<Rightarrow> string \<Rightarrow> string" where
  "strOr a d = (case a of None \<Rightarrow> d | Some v \<Rightarrow> if v \<noteq> [] then v else d)"

text \<open>
  The \<open>params\<close> object that the callback of \<open>project.frames.map\<close> builds from the
  \<open>params\<close> of a fetched frame.
\<close>

definition normalizeParams :: "RawParams \<Rightarrow> FrameParams" where
  "normalizeParams p =
     \<lparr>fov = numOr (raw_fov p) 50,
      lighting = numOr (raw_lighting p) 60,
      hdrBloom = numOr (orNum (hdr_bloom p) (raw_hdrBloom p)) 30,
      colorTemp = numOr (orNum (color_temp p) (raw_colorTemp p)) 5500,
      contrast = numOr (raw_contrast p) 50,
      cameraAngle = strOr (orStr (camera_angle p) (raw_cameraAngle p)) ''eye-level'',
      composition = strOr (raw_composition p) ''rule-of-thirds''\<rparr>"

text \<open>
  The callback itself.  Reading a property of a missing \<open>params\<close> throws a TypeError:
  the result is \<open>None\<close>.
\<close>

definition normalizeFrame :: "Env \<Rightarrow> RawFrame \<Rightarrow> Frame option" where
  "normalizeFrame env frame =
     (case raw_params frame of
        None \<Rightarrow> None
      | Some p \<Rightarrow>
          Some \<lparr>frame_id = raw_id frame, imageUrl = image_url frame, prompt = raw_prompt frame,
                params = normalizeParams p, timestamp = dateGetTime env (created_at frame),
                frame_notes = raw_notes frame\<rparr>)"

text \<open>\<open>project.frames.map(...)\<close>: a TypeError also when \<open>frames\<close> is missing.\<close>

definition normalizeFrames :: "Env \<Rightarrow> RawProject \<Rightarrow> Frame list option" where
  "normalizeFrames env project =
     (case raw_frames project of
        None \<Rightarrow> None
      | Some fs \<Rightarrow> those (map (normalizeFrame env) fs))"

definition maxAttempts :: nat where
  "maxAttempts = 60"

definition pollDelay :: nat where
  "pollDelay = 5000"

definition timeoutMessage :: string where
  "timeoutMessage = ''Generation timeout - job did not complete in time''"

text \<open>
  One pass through the body of the \<open>while\<close> loop, at attempt \<open>k\<close>: the calls of
  \<open>onProgress\<close> it makes and how it leaves the \<open>try\<close> block.  \<open>Returned\<close> is a
  \<open>return\<close>; \<open>Caught\<close> is an exception thrown inside \<open>try\<close>, which the \<open>catch\<close> block of
  the loop logs; \<open>Waiting\<close> is the end of the \<open>try\<close> block.
\<close>

datatype attempt =
    Returned "Frame list"
  | Caught string
  | Waiting

definition pollOnce :: "Env \<Rightarrow> string \<Rightarrow> bool \<Rightarrow> nat \<Rightarrow> (number \<times> string) list \<times> attempt" where
  "pollOnce env jobId onProgress k =
     (case jobEndpoint env jobId k of
        Throws m \<Rightarrow> ([], Caught m)
      | NotOk statusText \<Rightarrow> ([], Caught (''Failed to get job status: '' @ statusText))
      | Ok job \<Rightarrow>
          (let reports =
                 (case progress_message job of
                    None \<Rightarrow> []
                  | Some m \<Rightarrow>
                      if onProgress \<and> m \<noteq> [] then [(numOr (progress_step job) 0, m)] else [])
           in if status job = ''completed'' then
                (case projectEndpoint env (job_project_id job) k of
                   Throws m \<Rightarrow> (reports, Caught m)
                 | NotOk statusText \<Rightarrow> (reports, Returned [])
                 | Ok project \<Rightarrow>
                     (case normalizeFrames env project of
                        None \<Rightarrow> (reports, Caught ''TypeError'')
                      | Some fs \<Rightarrow> (reports, Returned fs)))
              else if status job = ''failed'' then
                (reports, Caught (strOr (error_message job) ''Generation failed''))
              else (reports, Waiting)))"

text \<open>
  What a call of \<open>pollGenerationJob\<close> did: its result (\<open>Inl m\<close> is a rejection with an
  \<open>Error\<close> of message \<open>m\<close>), the calls of \<open>onProgress\<close>, the number of requests sent to
  the job-status endpoint, and the milliseconds spent in the delays between attempts.
\<close>

record PollRun =
  poll_outcome :: "string + Frame list"
  poll_reports :: "(number \<times> string) list"
  poll_requests :: nat
  poll_slept :: nat

text \<open>
  The \<open>while\<close> loop from the value \<open>attempts\<close> of its counter.  A pass that does not
  return adds one to the counter and waits \<open>pollDelay\<close>, on the normal path and in the
  \<open>catch\<close> block alike.
\<close>

function pollFrom :: "Env \<Rightarrow> string \<Rightarrow> bool \<Rightarrow> nat \<Rightarrow> PollRun" where
  "pollFrom env jobId onProgress attempts =
     (if attempts < maxAttempts then
        (case pollOnce env jobId onProgress attempts of
           (reports, Returned fs) \<Rightarrow>
             \<lparr>poll_outcome = Inr fs, poll_reports = reports, poll_requests = 1, poll_slept = 0\<rparr>
         | (reports, _) \<Rightarrow>
             (let rest = pollFrom env jobId onProgress (attempts + 1)
              in rest\<lparr>poll_reports := reports @ poll_reports rest,
                      poll_requests := 1 + poll_requests rest,
                      poll_slept := pollDelay + poll_slept rest\<rparr>))
      else
        \<lparr>poll_outcome = Inl timeoutMessage, poll_reports = [], poll_requests = 0,
         poll_slept = 0\<rparr>)"
  by pat_completeness auto
termination
  by (relation "measure (\<lambda>(env, jobId, onProgress, attempts). maxAttempts - attempts)") auto

declare pollFrom.simps [simp del]

definition pollGenerationJob :: "Env \<Rightarrow> string \<Rightarrow> bool \<Rightarrow> PollRun" where
  "pollGenerationJob env jobId onProgress = pollFrom env jobId onProgress 0"

section \<open>The generation workflow (hooks/useGenerator)\<close>

text \<open>
  A call of \<open>generate\<close>: how the promise settles (\<open>Inl m\<close>: rejected with an \<open>Error\<close> of
  message \<open>m\<close>), the hook's \<open>error\<close> state, the store at that moment, and the store once
  the timer set in the \<open>finally\<close> block has fired, \<open>cleanupDelay\<close> milliseconds later.
\<close>

record GenerateRun =
  gen_result :: "string + Frame list"
  gen_error :: "string option"
  gen_store :: AppState
  gen_cleaned :: AppState

definition cleanupDelay :: nat where
  "cleanupDelay = 1500"

definition cleanup :: "AppState \<Rightarrow> AppState" where
  "cleanup state = setGenerationProgress None (setIsGenerating False state)"

text \<open>The progress callback that \<open>generate\<close> passes to both generators.\<close>

definition report :: "number \<times> string \<Rightarrow> AppState \<Rightarrow> AppState" where
  "report r state =
     setGenerationProgress
       (Some \<lparr>step = fst r, totalSteps = real (length generationSteps), message = snd r,
              isComplete = False\<rparr>) state"

text \<open>
  Storing the backend id: \<open>store.currentProject || currentProject\<close> picks the store's
  current project, or else the one the hook captured when it was rendered.
\<close>

definition storeBackendId :: "SceneProject option \<Rightarrow> string \<Rightarrow> AppState \<Rightarrow> AppState" where
  "storeBackendId captured bid state =
     (case (case currentProject state of Some p \<Rightarrow> Some p | None \<Rightarrow> captured) of
        None \<Rightarrow> state
      | Some projectToUpdate \<Rightarrow>
          (let updatedProject = projectToUpdate\<lparr>backendId := Some bid\<rparr>
           in setCurrentProject (Some updatedProject) (updateProject updatedProject state)))"

text \<open>\<open>frames.forEach((frame) => addFrame(frame))\<close>, reading the clock from site \<open>k\<close> on.\<close>

fun addFrames :: "Env \<Rightarrow> nat \<Rightarrow> Frame list \<Rightarrow> AppState \<Rightarrow> AppState" where
  "addFrames env k [] state = state"
| "addFrames env k (f # fs) state = addFrames env (Suc k) fs (addFrame (clock env k) f state)"

definition succeed :: "Env \<Rightarrow> nat \<Rightarrow> Frame list \<Rightarrow> AppState \<Rightarrow> GenerateRun" where
  "succeed env k fs state =
     (let done =
            setGenerationProgress
              (Some \<lparr>step = real (length generationSteps),
                     totalSteps = real (length generationSteps), message = ''Complete!'',
                     isComplete = True\<rparr>)
              (addFrames env k fs state)
      in \<lparr>gen_result = Inr fs, gen_error = None, gen_store = done, gen_cleaned = cleanup done\<rparr>)"

definition failWith :: "string \<Rightarrow> AppState \<Rightarrow> GenerateRun" where
  "failWith m state =
     \<lparr>gen_result = Inl m, gen_error = Some m, gen_store = state, gen_cleaned = cleanup state\<rparr>"

text \<open>
  \<open>generate(prompt, params, genre)\<close>.  \<open>demo\<close> and \<open>captured\<close> are the values of
  \<open>demoMode\<close> and \<open>currentProject\<close> that the hook read from the store when it was
  rendered.  The optional callbacks of \<open>options\<close> are not given.  In demo mode the
  backend id reads the clock at site 12 and the frames are added from site 13 on;
  otherwise the frames are added from site 0 on.
\<close>

definition generate ::
  "Env \<Rightarrow> bool \<Rightarrow> SceneProject option \<Rightarrow> string \<Rightarrow> FrameParams \<Rightarrow> string \<Rightarrow> AppState \<Rightarrow> GenerateRun"
where
  "generate env demo captured p ps g state0 =
     (let state1 =
            setGenerationProgress
              (Some \<lparr>step = 0, totalSteps = real (length generationSteps),
                     message = ''Initializing...'', isComplete = False\<rparr>)
              (setIsGenerating True state0)
      in if demo then
           (let run = mockGenerateResponse env p ps;
                state2 = fold report (mock_reports run) state1;
                state3 =
                  storeBackendId captured (''demo-backend-'' @ show_nat (clock env 12)) state2
            in succeed env 13 (mock_frames run) state3)
         else
           (case generateEndpoint env p g ps of
              Throws m \<Rightarrow> failWith m state1
            | NotOk statusText \<Rightarrow> failWith (''Generation failed: '' @ statusText) state1
            | Ok jobData \<Rightarrow>
                (let state2 =
                       (case created_project_id jobData of
                          None \<Rightarrow> state1
                        | Some pid \<Rightarrow>
                            if pid \<noteq> [] then storeBackendId captured pid state1 else state1);
                     run = pollGenerationJob env (created_id jobData) True;
                     state3 = fold report (poll_reports run) state2
                 in case poll_outcome run of
                      Inl m \<Rightarrow> failWith m state3
                    | Inr fs \<Rightarrow> succeed env 0 fs state3)))"

text \<open>
  A call of \<open>regenerateFrame\<close>: the value the promise resolves to (\<open>None\<close> is
  \<open>undefined\<close>) or the message it rejects with, the hook's \<open>error\<close> state, and the store.
\<close>

record RegenerateRun =
  regen_result :: "string + Frame option"
  regen_error :: "string option"
  regen_store :: AppState

text \<open>
  \<open>{...frame, ...refined}\<close>.  The frames \<open>pollGenerationJob\<close> returns carry all six
  keys (\<open>notes\<close> possibly with the value \<open>undefined\<close>), so every key of the right operand
  wins.
\<close>

definition spreadFrame :: "Frame \<Rightarrow> Frame \<Rightarrow> Frame" where
  "spreadFrame frame refined =
     frame\<lparr>frame_id := frame_id refined, imageUrl := imageUrl refined, prompt := prompt refined,
           params := params refined, timestamp := timestamp refined,
           frame_notes := frame_notes refined\<rparr>"

definition regenFailed :: "string \<Rightarrow> AppState \<Rightarrow> RegenerateRun" where
  "regenFailed m state =
     \<lparr>regen_result = Inl m, regen_error = Some m, regen_store = setIsGenerating False state\<rparr>"

text \<open>
  \<open>regenerateFrame(frameId, params)\<close>; \<open>err\<close> is the hook's \<open>error\<close> state before the
  call, \<open>demo\<close> and \<open>captured\<close> are as for \<open>generate\<close>.  The new timestamp reads the
  clock at site 0 and \<open>updateFrame\<close> at site 1.  \<open>isGenerating\<close> is cleared in the
  \<open>finally\<close> block at once, without a timer.
\<close>

definition regenerateFrame ::
  "Env \<Rightarrow> bool \<Rightarrow> SceneProject option \<Rightarrow> string option \<Rightarrow> string \<Rightarrow> FrameParams \<Rightarrow> AppState
     \<Rightarrow> RegenerateRun"
where
  "regenerateFrame env demo captured err frameId ps state0 =
     (case captured of
        None \<Rightarrow> \<lparr>regen_result = Inr None, regen_error = err, regen_store = state0\<rparr>
      | Some cp \<Rightarrow>
          (case find (\<lambda>f. frame_id f = frameId) (frames cp) of
             None \<Rightarrow> \<lparr>regen_result = Inr None, regen_error = err, regen_store = state0\<rparr>
           | Some frame \<Rightarrow>
               (let state1 = setIsGenerating True state0
                in if demo then
                     (let updatedFrame = frame\<lparr>params := ps, timestamp := real (clock env 0)\<rparr>
                      in \<lparr>regen_result = Inr (Some updatedFrame), regen_error = None,
                          regen_store =
                            setIsGenerating False (updateFrame (clock env 1) updatedFrame state1)\<rparr>)
                   else
                     (case refineEndpoint env frameId ps of
                        Throws m \<Rightarrow> regenFailed m state1
                      | NotOk statusText \<Rightarrow>
                          regenFailed (''Refinement failed: '' @ statusText) state1
                      | Ok jobData \<Rightarrow>
                          (case poll_outcome (pollGenerationJob env (created_id jobData) False) of
                             Inl m \<Rightarrow> regenFailed m state1
                           | Inr [] \<Rightarrow>
                               \<lparr>regen_result = Inr None, regen_error = None,
                                regen_store = setIsGenerating False state1\<rparr>
                           | Inr (refined # _) \<Rightarrow>
                               (let refinedFrame =
                                      (spreadFrame frame refined)
                                        \<lparr>timestamp := real (clock env 0)\<rparr>
                                in \<lparr>regen_result = Inr (Some refinedFrame), regen_error = None,
                                    regen_store =
                                      setIsGenerating False
                                        (updateFrame (clock env 1) refinedFrame state1)\<rparr>))))))"

section \<open>Predicates and concrete inputs used in the statements\<close>

text \<open>
  A terminal answer of the job-status endpoint: a job whose status is \<open>completed\<close> or
  \<open>failed\<close>.
\<close>

definition terminalStatus :: "Job fetched \<Rightarrow> bool" where
  "terminalStatus r =
     (case r of Ok job \<Rightarrow> status job = ''completed'' \<or> status job = ''failed'' | _ \<Rightarrow> False)"

text \<open>Two frames, a project that owns them, and a store that has it open.\<close>

definition frameA :: Frame where
  "frameA =
     \<lparr>frame_id = ''a'', imageUrl = ''/uploads/a.png'', prompt = ''Opening'',
      params = defaultParams, timestamp = 1000, frame_notes = None\<rparr>"

definition frameB :: Frame where
  "frameB =
     \<lparr>frame_id = ''b'', imageUrl = ''/uploads/b.png'', prompt = ''Chase'',
      params = defaultParams, timestamp = 2000, frame_notes = Some ''too bright''\<rparr>"

definition projectP :: SceneProject where
  "projectP =
     \<lparr>project_id = ''project-1'', name = ''Chase'', description = ''desc'', genre = ''noir'',
      frames = [frameA, frameB], createdAt = 500, updatedAt = 2000,
      backendId = Some ''backend-1''\<rparr>"

definition stateP :: AppState where
  "stateP = initialState\<lparr>currentProject := Some projectP, projects := [projectP],
                         selectedFrameId := Some ''b''\<rparr>"

text \<open>What the backend sends for the two frames, the second one refined.\<close>

definition rawParamsDefault :: RawParams where
  "rawParamsDefault =
     \<lparr>raw_fov = Some 50, raw_lighting = Some 60, hdr_bloom = Some 30, raw_hdrBloom = None,
      color_temp = Some 5500, raw_colorTemp = None, raw_contrast = Some 50,
      camera_angle = Some ''eye-level'', raw_cameraAngle = None,
      raw_composition = Some ''rule-of-thirds''\<rparr>"

definition rawA :: RawFrame where
  "rawA =
     \<lparr>raw_id = ''a'', image_url = ''/uploads/a.png'', raw_prompt = ''Opening'',
      raw_params = Some rawParamsDefault, created_at = ''2025-01-01T00:00:01Z'',
      raw_notes = None\<rparr>"

definition rawB :: RawFrame where
  "rawB =
     \<lparr>raw_id = ''b'', image_url = ''/uploads/b-refined.png'', raw_prompt = ''Chase, darker'',
      raw_params = Some (rawParamsDefault\<lparr>raw_lighting := Some 25\<rparr>),
      created_at = ''2025-01-01T00:00:09Z'', raw_notes = None\<rparr>"

text \<open>
  A world without a network: every request throws.  \<open>Math.random()\<close> always gives 0
  and the clock advances by one millisecond per reading site.
\<close>

definition offlineEnv :: Env where
  "offlineEnv =
     \<lparr>random = (\<lambda>k. 0), clock = (\<lambda>k. 1700000000000 + k),
      generateEndpoint = (\<lambda>p g ps. Throws ''Failed to fetch''),
      refineEndpoint = (\<lambda>i ps. Throws ''Failed to fetch''),
      jobEndpoint = (\<lambda>jobId k. Throws ''Failed to fetch''),
      projectEndpoint = (\<lambda>pid k. Throws ''Failed to fetch''),
      dateGetTime = (\<lambda>s. 0)\<rparr>"

text \<open>
  A backend whose jobs never leave the status \<open>failed\<close>, with the error message
  \<open>boom\<close>.
\<close>

definition failedJob :: Job where
  "failedJob =
     \<lparr>status = ''failed'', progress_step = None, progress_message = None,
      error_message = Some ''boom'', job_project_id = None\<rparr>"

definition failingEnv :: Env where
  "failingEnv =
     offlineEnv
       \<lparr>generateEndpoint :=
          (\<lambda>p g ps. Ok \<lparr>created_id = ''job-1'', created_project_id = None\<rparr>),
        refineEndpoint := (\<lambda>i ps. Ok \<lparr>created_id = ''job-1'', created_project_id = None\<rparr>),
        jobEndpoint := (\<lambda>jobId k. Ok failedJob),
        projectEndpoint := (\<lambda>pid k. NotOk ''Not Found'')\<rparr>"

text \<open>
  A backend whose jobs are always pending, and one that completes every job at the
  first poll and then serves the project with the frames \<open>rawA\<close> and \<open>rawB\<close>.
\<close>

definition pendingJob :: Job where
  "pendingJob =
     \<lparr>status = ''pending'', progress_step = Some 2, progress_message = Some ''Working'',
      error_message = None, job_project_id = None\<rparr>"

definition pendingEnv :: Env where
  "pendingEnv = failingEnv\<lparr>jobEndpoint := (\<lambda>jobId k. Ok pendingJob)\<rparr>"

definition completedJob :: Job where
  "completedJob =
     \<lparr>status = ''completed'', progress_step = Some 7, progress_message = Some ''Done'',
      error_message = None, job_project_id = Some ''backend-1''\<rparr>"

definition refiningEnv :: Env where
  "refiningEnv =
     failingEnv
       \<lparr>jobEndpoint := (\<lambda>jobId k. Ok completedJob),
        projectEndpoint := (\<lambda>pid k. Ok \<lparr>raw_frames = Some [rawA, rawB]\<rparr>),
        dateGetTime := (\<lambda>s. 1735689600000)\<rparr>"

text \<open>
  Frame \<open>a\<close> as \<open>refiningEnv\<close> serves it, stamped with the first clock reading of
  \<open>offlineEnv\<close>.
\<close>

definition refinedA :: Frame where
  "refinedA =
     \<lparr>frame_id = ''a'', imageUrl = ''/uploads/a.png'', prompt = ''Opening'',
      params = defaultParams, timestamp = 1700000000000, frame_notes = None\<rparr>"

text \<open>A fetched \<open>params\<close> object with a zero and with both spellings of one field.\<close>

definition rawParamsMixed :: RawParams where
  "rawParamsMixed =
     \<lparr>raw_fov = Some 35, raw_lighting = Some 0, hdr_bloom = Some 10, raw_hdrBloom = Some 20,
      color_temp = None, raw_colorTemp = Some 3200, raw_contrast = None,
      camera_angle = None, raw_cameraAngle = Some ''low-angle'', raw_composition = None\<rparr>"

section \<open>The store: frame lists stay in sync\<close>

lemma writeBack_sync: "framesInSync (writeBack u state)"
  by (auto simp add: framesInSync_def writeBack_def list_all_iff)

lemma call_sync: "framesInSync (call c state)"
proof (cases "currentProject state")
  case None
  then have "call c state = state"
    by (cases c) (simp_all add: addFrame_def updateFrame_def deleteFrame_def reorderFrames_def)
  with None show ?thesis by (simp add: framesInSync_def)
next
  case (Some cp)
  have sel: "framesInSync (s\<lparr>selectedFrameId := x\<rparr>) = framesInSync s" for s x
    by (simp add: framesInSync_def split: option.splits)
  from Some show ?thesis
    by (cases c)
      (simp_all add: addFrame_def updateFrame_def deleteFrame_def reorderFrames_def
        writeBack_sync sel)
qed

text \<open>
  Claim C1.  After every call of a sequence of \<open>addFrame\<close>, \<open>updateFrame\<close>,
  \<open>deleteFrame\<close> and \<open>reorderFrames\<close> calls, started in any state: when there is a
  current project, each entry of \<open>projects\<close> with its id holds the same frame list.
\<close>

theorem frames_in_sync_after_every_call:
  "\<forall>state' \<in> set (trace state cs). framesInSync state'"
proof (induction cs arbitrary: state)
  case Nil
  show ?case by simp
next
  case (Cons c cs)
  then show ?case by (simp add: call_sync)
qed

theorem frames_in_sync_witness:
  "map_option frames
     (currentProject
        (last (trace stateP
           [AddFrame 3000 frameA, DeleteFrame 3001 ''b'', ReorderFrames 3002 [frameB, frameA],
            UpdateFrame 3003 frameA]))) = Some [frameB, frameA] \<and>
   map frames
     (projects
        (last (trace stateP
           [AddFrame 3000 frameA, DeleteFrame 3001 ''b'', ReorderFrames 3002 [frameB, frameA],
            UpdateFrame 3003 frameA]))) = [[frameB, frameA]] \<and>
   framesInSync
     (last (trace stateP
        [AddFrame 3000 frameA, DeleteFrame 3001 ''b'', ReorderFrames 3002 [frameB, frameA],
         UpdateFrame 3003 frameA]))"
  using frames_in_sync_after_every_call
    [of stateP
      "[AddFrame 3000 frameA, DeleteFrame 3001 ''b'', ReorderFrames 3002 [frameB, frameA],
        UpdateFrame 3003 frameA]"]
  by (simp add: stateP_def projectP_def frameA_def frameB_def addFrame_def deleteFrame_def
        reorderFrames_def updateFrame_def writeBack_def)

section \<open>The store: deleting a frame and the selection\<close>

text \<open>
  Claim C3.  With a current project, \<open>deleteFrame i\<close> leaves \<open>selectedFrameId\<close> null when
  it was \<open>i\<close> before, and leaves it as it was when it was another id or null.
\<close>

theorem deleteFrame_selection:
  assumes "currentProject state \<noteq> None"
  shows "(selectedFrameId state = Some i \<longrightarrow> selectedFrameId (deleteFrame now i state) = None) \<and>
         (selectedFrameId state \<noteq> Some i \<longrightarrow>
            selectedFrameId (deleteFrame now i state) = selectedFrameId state)"
  using assms by (auto simp add: deleteFrame_def writeBack_def)

theorem deleteFrame_selection_witness:
  "currentProject stateP \<noteq> None \<and> selectedFrameId stateP = Some ''b'' \<and>
   selectedFrameId (deleteFrame 3000 ''b'' stateP) = None \<and>
   selectedFrameId (deleteFrame 3000 ''a'' stateP) = Some ''b''"
proof -
  have cp: "currentProject stateP \<noteq> None" by (simp add: stateP_def)
  have sel: "selectedFrameId stateP = Some ''b''" by (simp add: stateP_def)
  from deleteFrame_selection [OF cp, of "''b''" 3000] deleteFrame_selection [OF cp, of "''a''" 3000]
    cp sel
  show ?thesis by simp
qed

section \<open>The store: what deleting a project touches\<close>

text \<open>
  Claim C10.  \<open>deleteProject i\<close> changes \<open>projects\<close> (the entries with id \<open>i\<close> go) and
  \<open>currentProject\<close> (null when its id is \<open>i\<close>, otherwise as before) and nothing else.
  So when the current project is deleted while one of its frames is selected, the
  selection still names that frame afterwards, although no project is left to hold it.
\<close>

theorem deleteProject_effect:
  "projects (deleteProject i state) = filter (\<lambda>p. project_id p \<noteq> i) (projects state) \<and>
   currentProject (deleteProject i state) =
     (if currentProjectHasId state i then None else currentProject state) \<and>
   selectedFrameId (deleteProject i state) = selectedFrameId state \<and>
   demoMode (deleteProject i state) = demoMode state \<and>
   isGenerating (deleteProject i state) = isGenerating state \<and>
   generationProgress (deleteProject i state) = generationProgress state \<and>
   jsonEditorContent (deleteProject i state) = jsonEditorContent state \<and>
   (currentProject state = Some cp \<and> project_id cp = i \<and> selectedFrameId state = Some f \<and>
    f \<in> frame_id ` set (frames cp) \<longrightarrow>
      currentProject (deleteProject i state) = None \<and>
      i \<notin> project_id ` set (projects (deleteProject i state)) \<and>
      selectedFrameId (deleteProject i state) = Some f)"
  by (auto simp add: deleteProject_def currentProjectHasId_def)

theorem deleteProject_effect_witness:
  "currentProject stateP = Some projectP \<and> project_id projectP = ''project-1'' \<and>
   selectedFrameId stateP = Some ''b'' \<and> ''b'' \<in> frame_id ` set (frames projectP) \<and>
   currentProject (deleteProject ''project-1'' stateP) = None \<and>
   projects (deleteProject ''project-1'' stateP) = [] \<and>
   selectedFrameId (deleteProject ''project-1'' stateP) = Some ''b''"
  using deleteProject_effect [of "''project-1''" stateP projectP "''b''"]
  by (simp add: stateP_def projectP_def frameA_def frameB_def initialState_def
        deleteProject_def currentProjectHasId_def)

section \<open>Persistence: what survives a reload\<close>

text \<open>
  Claim C4.  The snapshot written to storage consists of \<open>demoMode\<close> and \<open>projects\<close>.
  Reloading it gives back these two values; \<open>currentProject\<close>, \<open>selectedFrameId\<close>,
  \<open>isGenerating\<close> and \<open>generationProgress\<close> are at their initial values (null, null,
  false, null).  This holds for every store state.
\<close>

theorem persistence_round_trip:
  "partialize state = \<lparr>saved_demoMode = demoMode state, saved_projects = projects state\<rparr> \<and>
   demoMode (rehydrate (partialize state)) = demoMode state \<and>
   projects (rehydrate (partialize state)) = projects state \<and>
   currentProject (rehydrate (partialize state)) = None \<and>
   selectedFrameId (rehydrate (partialize state)) = None \<and>
   isGenerating (rehydrate (partialize state)) = False \<and>
   generationProgress (rehydrate (partialize state)) = None"
  by (simp add: partialize_def rehydrate_def initialState_def)

section \<open>Regenerating a frame that is not there\<close>

text \<open>
  Claim C9.  When the hook has no current project, or the current project has no frame
  with the given id, \<open>regenerateFrame\<close> resolves to \<open>undefined\<close> and changes nothing:
  the store (with \<open>isGenerating\<close> and the frame lists) and the hook's error are as before.
\<close>

theorem regenerateFrame_unknown_frame:
  assumes "captured = None \<or> (\<exists>cp. captured = Some cp \<and> frameId \<notin> frame_id ` set (frames cp))"
  shows "regenerateFrame env demo captured err frameId ps state =
           \<lparr>regen_result = Inr None, regen_error = err, regen_store = state\<rparr>"
proof -
  have absent: "find (\<lambda>f. frame_id f = frameId) fs = None"
    if "frameId \<notin> frame_id ` set fs" for fs
    using that by (auto simp add: find_None_iff)
  from assms show ?thesis
  proof
    assume "captured = None"
    then show ?thesis by (simp add: regenerateFrame_def)
  next
    assume "\<exists>cp. captured = Some cp \<and> frameId \<notin> frame_id ` set (frames cp)"
    then obtain cp where "captured = Some cp" and "frameId \<notin> frame_id ` set (frames cp)"
      by blast
    then show ?thesis by (simp add: regenerateFrame_def absent)
  qed
qed

theorem regenerateFrame_unknown_frame_witness:
  "''zz'' \<notin> frame_id ` set (frames projectP) \<and>
   regenerateFrame refiningEnv False (Some projectP) None ''zz'' defaultParams stateP =
     \<lparr>regen_result = Inr None, regen_error = None, regen_store = stateP\<rparr> \<and>
   regenerateFrame refiningEnv True None None ''a'' defaultParams stateP =
     \<lparr>regen_result = Inr None, regen_error = None, regen_store = stateP\<rparr>"
proof -
  have absent: "''zz'' \<notin> frame_id ` set (frames projectP)"
    by (simp add: projectP_def frameA_def frameB_def)
  then have h: "Some projectP = None \<or>
      (\<exists>cp. Some projectP = Some cp \<and> ''zz'' \<notin> frame_id ` set (frames cp))"
    by simp
  have h2: "(None :: SceneProject option) = None \<or>
      (\<exists>cp. None = Some cp \<and> ''a'' \<notin> frame_id ` set (frames cp))"
    by simp
  from regenerateFrame_unknown_frame [OF h] regenerateFrame_unknown_frame [OF h2] absent
  show ?thesis by simp
qed

section \<open>Demo mode: the generated frames\<close>

lemma mockFrame_bounds:
  "24 \<le> fov (params (mockFrame env p ps i)) \<and> fov (params (mockFrame env p ps i)) \<le> 120 \<and>
   0 \<le> lighting (params (mockFrame env p ps i)) \<and>
   lighting (params (mockFrame env p ps i)) \<le> 100"
  by (simp add: mockFrame_def)

lemma mock_frames_length: "length (mock_frames (mockGenerateResponse env p ps)) = 6"
  by (simp add: mockGenerateResponse_def frameCount_def)

lemma mock_first_notes:
  "frame_notes (hd (mock_frames (mockGenerateResponse env p ps))) =
     Some ''Opening shot - establish mood and setting''"
  by (simp add: mockGenerateResponse_def frameCount_def mockFrame_def upt_conv_Cons)

lemma generate_demo_result:
  "gen_result (generate env True captured p ps g state) =
     Inr (mock_frames (mockGenerateResponse env p ps))"
  by (simp add: generate_def succeed_def Let_def)

text \<open>
  Claim C8.  In demo mode \<open>generate("A noir chase", defaultParams, "noir")\<close> resolves,
  whatever \<open>Math.random()\<close> and the clock return and whatever the store holds, to six
  frames; each has its \<open>fov\<close> in [24, 120] and its \<open>lighting\<close> in [0, 100], and the notes
  of the first are a non-empty string.
\<close>

theorem demo_generate_noir:
  "\<exists>fs. gen_result (generate env True captured ''A noir chase'' defaultParams ''noir'' state) =
          Inr fs \<and>
      length fs = 6 \<and>
      (\<forall>f \<in> set fs. 24 \<le> fov (params f) \<and> fov (params f) \<le> 120 \<and>
                     0 \<le> lighting (params f) \<and> lighting (params f) \<le> 100) \<and>
      (\<exists>n. frame_notes (hd fs) = Some n \<and> n \<noteq> [])"
proof -
  let ?fs = "mock_frames (mockGenerateResponse env ''A noir chase'' defaultParams)"
  have "\<forall>f \<in> set ?fs. 24 \<le> fov (params f) \<and> fov (params f) \<le> 120 \<and>
                     0 \<le> lighting (params f) \<and> lighting (params f) \<le> 100"
    using mockFrame_bounds by (auto simp add: mockGenerateResponse_def)
  moreover have "\<exists>n. frame_notes (hd ?fs) = Some n \<and> n \<noteq> []"
    by (simp add: mock_first_notes)
  ultimately show ?thesis
    using generate_demo_result mock_frames_length by blast
qed

theorem demo_generate_noir_witness:
  "\<exists>fs. gen_result
          (generate offlineEnv True None ''A noir chase'' defaultParams ''noir'' initialState) =
          Inr fs \<and>
      length fs = 6 \<and>
      map (\<lambda>f. fov (params f)) fs = [42.5, 42.5, 42.5, 42.5, 42.5, 42.5] \<and>
      map (\<lambda>f. lighting (params f)) fs = [50, 50, 50, 50, 50, 50] \<and>
      frame_notes (hd fs) = Some ''Opening shot - establish mood and setting''"
  using demo_generate_noir [of offlineEnv None initialState]
  by (simp add: generate_demo_result mockGenerateResponse_def frameCount_def mockFrame_def
        upt_conv_Cons offlineEnv_def defaultParams_def)

section \<open>Normalising the fetched frame parameters\<close>

text \<open>
  The frames a pass of the polling loop returns are the fetched frames, in order, each
  with its \<open>params\<close> put through \<open>normalizeParams\<close>.
\<close>

lemma those_map_Some:
  assumes "those (map f xs) = Some ys"
  shows "list_all2 (\<lambda>x y. f x = Some y) xs ys"
  using assms
proof (induction xs arbitrary: ys)
  case Nil
  then show ?case by simp
next
  case (Cons x xs)
  then obtain y ys' where "f x = Some y" and "those (map f xs) = Some ys'" and "ys = y # ys'"
    by (auto split: option.splits)
  with Cons.IH show ?case by simp
qed

lemma normalizeFrames_params:
  assumes "normalizeFrames env project = Some fs"
  shows "\<exists>rfs. raw_frames project = Some rfs \<and>
           list_all2 (\<lambda>rf f. \<exists>p. raw_params rf = Some p \<and> params f = normalizeParams p) rfs fs"
proof -
  from assms obtain rfs where rfs: "raw_frames project = Some rfs"
    and those: "those (map (normalizeFrame env) rfs) = Some fs"
    by (auto simp add: normalizeFrames_def split: option.splits)
  from those have "list_all2 (\<lambda>rf f. normalizeFrame env rf = Some f) rfs fs"
    by (rule those_map_Some)
  then have "list_all2 (\<lambda>rf f. \<exists>p. raw_params rf = Some p \<and> params f = normalizeParams p) rfs fs"
    by (rule list_all2_mono) (auto simp add: normalizeFrame_def split: option.splits)
  with rfs show ?thesis by blast
qed

lemma pollOnce_returned_params:
  assumes "pollOnce env jobId onProgress k = (reports, Returned fs)" and "fs \<noteq> []"
  shows "\<exists>job project rfs. jobEndpoint env jobId k = Ok job \<and> status job = ''completed'' \<and>
           projectEndpoint env (job_project_id job) k = Ok project \<and>
           raw_frames project = Some rfs \<and>
           list_all2 (\<lambda>rf f. \<exists>p. raw_params rf = Some p \<and> params f = normalizeParams p) rfs fs"
  using assms
  by (auto simp add: pollOnce_def Let_def split: fetched.splits if_splits option.splits
        dest: normalizeFrames_params)

text \<open>
  Claim C5, as amended.  A numeric field that is absent from the fetched \<open>params\<close>
  (under both of its names, for \<open>hdrBloom\<close> and \<open>colorTemp\<close>) gets its fallback: fov 50,
  lighting 60, hdrBloom 30, colorTemp 5500, contrast 50.  A field that is present with
  a non-zero number \<open>v\<close> keeps \<open>v\<close>; for \<open>hdrBloom\<close> and \<open>colorTemp\<close> this is so for the
  snake_case name, and for the camelCase name when the snake_case name is absent.
\<close>

theorem normalizeParams_fallbacks:
  "(raw_fov p = None \<longrightarrow> fov (normalizeParams p) = 50) \<and>
   (raw_lighting p = None \<longrightarrow> lighting (normalizeParams p) = 60) \<and>
   (hdr_bloom p = None \<and> raw_hdrBloom p = None \<longrightarrow> hdrBloom (normalizeParams p) = 30) \<and>
   (color_temp p = None \<and> raw_colorTemp p = None \<longrightarrow> colorTemp (normalizeParams p) = 5500) \<and>
   (raw_contrast p = None \<longrightarrow> contrast (normalizeParams p) = 50) \<and>
   (v \<noteq> 0 \<longrightarrow>
      (raw_fov p = Some v \<longrightarrow> fov (normalizeParams p) = v) \<and>
      (raw_lighting p = Some v \<longrightarrow> lighting (normalizeParams p) = v) \<and>
      (hdr_bloom p = Some v \<longrightarrow> hdrBloom (normalizeParams p) = v) \<and>
      (hdr_bloom p = None \<and> raw_hdrBloom p = Some v \<longrightarrow> hdrBloom (normalizeParams p) = v) \<and>
      (color_temp p = Some v \<longrightarrow> colorTemp (normalizeParams p) = v) \<and>
      (color_temp p = None \<and> raw_colorTemp p = Some v \<longrightarrow> colorTemp (normalizeParams p) = v) \<and>
      (raw_contrast p = Some v \<longrightarrow> contrast (normalizeParams p) = v))"
  by (simp add: normalizeParams_def numOr_def orNum_def truthyNum_def)

theorem normalizeParams_fallbacks_witness:
  "raw_fov rawParamsMixed = Some 35 \<and> fov (normalizeParams rawParamsMixed) = 35 \<and>
   raw_contrast rawParamsMixed = None \<and> contrast (normalizeParams rawParamsMixed) = 50 \<and>
   color_temp rawParamsMixed = None \<and> raw_colorTemp rawParamsMixed = Some 3200 \<and>
   colorTemp (normalizeParams rawParamsMixed) = 3200 \<and>
   hdr_bloom rawParamsMixed = Some 10 \<and> hdrBloom (normalizeParams rawParamsMixed) = 10"
  using normalizeParams_fallbacks [of rawParamsMixed 35]
    normalizeParams_fallbacks [of rawParamsMixed 3200]
    normalizeParams_fallbacks [of rawParamsMixed 10]
  by (simp add: rawParamsMixed_def)

text \<open>
  The claim as written fails on \<open>rawParamsMixed\<close>: its \<open>lighting\<close> is present with the
  value 0 and comes out as 60, and its \<open>hdrBloom\<close> is present with the value 20 and comes
  out as 10, the value of \<open>hdr_bloom\<close>.
\<close>

theorem normalizeParams_present_not_kept:
  "raw_lighting rawParamsMixed = Some 0 \<and> lighting (normalizeParams rawParamsMixed) = 60 \<and>
   raw_hdrBloom rawParamsMixed = Some 20 \<and> hdrBloom (normalizeParams rawParamsMixed) = 10"
  by (simp add: rawParamsMixed_def normalizeParams_def numOr_def orNum_def truthyNum_def)

section \<open>The polling loop is bounded\<close>

text \<open>The three ways through one pass of the loop.\<close>

lemma pollFrom_exhausted:
  "\<not> attempts < maxAttempts \<Longrightarrow>
   pollFrom env jobId onProgress attempts =
     \<lparr>poll_outcome = Inl timeoutMessage, poll_reports = [], poll_requests = 0, poll_slept = 0\<rparr>"
  by (subst pollFrom.simps) simp

lemma pollFrom_returned:
  "attempts < maxAttempts \<Longrightarrow> pollOnce env jobId onProgress attempts = (reports, Returned fs) \<Longrightarrow>
   pollFrom env jobId onProgress attempts =
     \<lparr>poll_outcome = Inr fs, poll_reports = reports, poll_requests = 1, poll_slept = 0\<rparr>"
  by (subst pollFrom.simps) simp

lemma pollFrom_continued:
  assumes "attempts < maxAttempts" and "pollOnce env jobId onProgress attempts = (reports, a)"
    and "\<forall>fs. a \<noteq> Returned fs"
  shows "poll_outcome (pollFrom env jobId onProgress attempts) =
           poll_outcome (pollFrom env jobId onProgress (attempts + 1))"
    and "poll_reports (pollFrom env jobId onProgress attempts) =
           reports @ poll_reports (pollFrom env jobId onProgress (attempts + 1))"
    and "poll_requests (pollFrom env jobId onProgress attempts) =
           1 + poll_requests (pollFrom env jobId onProgress (attempts + 1))"
    and "poll_slept (pollFrom env jobId onProgress attempts) =
           pollDelay + poll_slept (pollFrom env jobId onProgress (attempts + 1))"
  using assms by (subst pollFrom.simps; cases a; simp add: Let_def)+

lemma pollFrom_bounds:
  "poll_requests (pollFrom env jobId onProgress attempts) \<le> maxAttempts - attempts \<and>
   (case poll_outcome (pollFrom env jobId onProgress attempts) of
      Inl m \<Rightarrow>
        poll_slept (pollFrom env jobId onProgress attempts) =
          pollDelay * poll_requests (pollFrom env jobId onProgress attempts)
    | Inr fs \<Rightarrow>
        poll_slept (pollFrom env jobId onProgress attempts) + pollDelay =
          pollDelay * poll_requests (pollFrom env jobId onProgress attempts))"
proof (induction "maxAttempts - attempts" arbitrary: attempts)
  case 0
  then have "\<not> attempts < maxAttempts" by simp
  then show ?case by (simp add: pollFrom_exhausted)
next
  case (Suc n)
  then have less: "attempts < maxAttempts" and n: "n = maxAttempts - (attempts + 1)"
    by simp_all
  obtain reports a where once: "pollOnce env jobId onProgress attempts = (reports, a)"
    by (cases "pollOnce env jobId onProgress attempts")
  show ?case
  proof (cases "\<exists>fs. a = Returned fs")
    case True
    then obtain fs where "a = Returned fs" ..
    with less once show ?thesis by (simp add: pollFrom_returned)
  next
    case False
    then have "\<forall>fs. a \<noteq> Returned fs" by simp
    note step = pollFrom_continued [OF less once this]
    from Suc.hyps(1) [OF n] less show ?thesis
      by (auto simp add: step split: sum.splits)
  qed
qed

lemma pollOnce_not_completed:
  assumes "\<And>job. jobEndpoint env jobId k = Ok job \<Longrightarrow> status job \<noteq> ''completed''"
  shows "snd (pollOnce env jobId onProgress k) \<noteq> Returned fs"
  using assms by (cases "jobEndpoint env jobId k") (simp_all add: pollOnce_def Let_def)

lemma pollFrom_timeout:
  assumes "\<forall>k job. attempts \<le> k \<and> k < maxAttempts \<and> jobEndpoint env jobId k = Ok job \<longrightarrow>
             status job \<noteq> ''completed''"
  shows "poll_outcome (pollFrom env jobId onProgress attempts) = Inl timeoutMessage \<and>
         poll_requests (pollFrom env jobId onProgress attempts) = maxAttempts - attempts"
  using assms
proof (induction "maxAttempts - attempts" arbitrary: attempts)
  case 0
  then have "\<not> attempts < maxAttempts" by simp
  then show ?case by (simp add: pollFrom_exhausted)
next
  case (Suc n)
  then have less: "attempts < maxAttempts" and n: "n = maxAttempts - (attempts + 1)"
    by simp_all
  obtain reports a where once: "pollOnce env jobId onProgress attempts = (reports, a)"
    by (cases "pollOnce env jobId onProgress attempts")
  have "status job \<noteq> ''completed''" if "jobEndpoint env jobId attempts = Ok job" for job
    using Suc.prems less that by auto
  then have "snd (pollOnce env jobId onProgress attempts) \<noteq> Returned fs" for fs
    by (rule pollOnce_not_completed)
  with once have "\<forall>fs. a \<noteq> Returned fs" by simp
  note step = pollFrom_continued [OF less once this]
  have "\<forall>k job. attempts + 1 \<le> k \<and> k < maxAttempts \<and> jobEndpoint env jobId k = Ok job \<longrightarrow>
          status job \<noteq> ''completed''"
    using Suc.prems by (metis Suc_eq_plus1 Suc_leD)
  then have "poll_outcome (pollFrom env jobId onProgress (attempts + 1)) = Inl timeoutMessage \<and>
        poll_requests (pollFrom env jobId onProgress (attempts + 1)) = maxAttempts - (attempts + 1)"
    by (rule Suc.hyps(1) [OF n])
  with less show ?case
    by (simp add: step)
qed

text \<open>
  Claim C6.  \<open>pollGenerationJob\<close> always returns (\<open>pollFrom\<close> is a total function: the
  distance of the counter from \<open>maxAttempts\<close> shrinks with every pass).  It sends at most
  60 requests to the job-status endpoint and waits 5000 ms after each one that did not
  make it return.  When none of the 60 answers carries a terminal status, it fails with
  the timeout error after 60 requests.
\<close>

theorem pollGenerationJob_bounded:
  "poll_requests (pollGenerationJob env jobId onProgress) \<le> 60 \<and>
   (case poll_outcome (pollGenerationJob env jobId onProgress) of
      Inl m \<Rightarrow>
        poll_slept (pollGenerationJob env jobId onProgress) =
          5000 * poll_requests (pollGenerationJob env jobId onProgress)
    | Inr fs \<Rightarrow>
        poll_slept (pollGenerationJob env jobId onProgress) + 5000 =
          5000 * poll_requests (pollGenerationJob env jobId onProgress)) \<and>
   ((\<forall>k < 60. \<not> terminalStatus (jobEndpoint env jobId k)) \<longrightarrow>
      poll_outcome (pollGenerationJob env jobId onProgress) = Inl timeoutMessage \<and>
      poll_requests (pollGenerationJob env jobId onProgress) = 60 \<and>
      poll_slept (pollGenerationJob env jobId onProgress) = 60 * 5000)"
proof -
  let ?run = "pollFrom env jobId onProgress 0"
  note b = pollFrom_bounds [of env jobId onProgress 0]
  have req: "poll_requests ?run \<le> 60"
    using b by (simp add: maxAttempts_def)
  have slept: "case poll_outcome ?run of
      Inl m \<Rightarrow> poll_slept ?run = 5000 * poll_requests ?run
    | Inr fs \<Rightarrow> poll_slept ?run + 5000 = 5000 * poll_requests ?run"
    using b by (cases "poll_outcome ?run") (simp_all add: pollDelay_def)
  have timeout: "poll_outcome ?run = Inl timeoutMessage \<and> poll_requests ?run = 60 \<and>
      poll_slept ?run = 60 * 5000"
    if quiet: "\<forall>k < 60. \<not> terminalStatus (jobEndpoint env jobId k)"
  proof -
    have "\<forall>k job. 0 \<le> k \<and> k < maxAttempts \<and> jobEndpoint env jobId k = Ok job \<longrightarrow>
            status job \<noteq> ''completed''"
      using quiet by (auto simp add: terminalStatus_def maxAttempts_def)
    then have t: "poll_outcome ?run = Inl timeoutMessage \<and> poll_requests ?run = maxAttempts - 0"
      by (rule pollFrom_timeout)
    with b show ?thesis by (simp add: maxAttempts_def pollDelay_def)
  qed
  from req slept timeout show ?thesis
    unfolding pollGenerationJob_def by simp
qed

theorem pollGenerationJob_bounded_witness:
  "\<not> terminalStatus (jobEndpoint pendingEnv ''job-1'' 0) \<and>
   poll_outcome (pollGenerationJob pendingEnv ''job-1'' True) = Inl timeoutMessage \<and>
   poll_requests (pollGenerationJob pendingEnv ''job-1'' True) = 60 \<and>
   poll_slept (pollGenerationJob pendingEnv ''job-1'' True) = 300000"
proof -
  have quiet: "\<forall>k < 60. \<not> terminalStatus (jobEndpoint pendingEnv ''job-1'' k)"
    by (simp add: pendingEnv_def pendingJob_def terminalStatus_def)
  then have "\<not> terminalStatus (jobEndpoint pendingEnv ''job-1'' 0)" by simp
  with quiet pollGenerationJob_bounded [of pendingEnv "''job-1''" True] show ?thesis
    by simp
qed

section \<open>A failed job does not stop the polling loop\<close>

lemma failing_pollOnce: "pollOnce failingEnv jobId onProgress k = ([], Caught ''boom'')"
  by (simp add: pollOnce_def failingEnv_def offlineEnv_def failedJob_def strOr_def)

lemma failing_poll:
  "poll_outcome (pollGenerationJob failingEnv jobId onProgress) = Inl timeoutMessage \<and>
   poll_requests (pollGenerationJob failingEnv jobId onProgress) = 60 \<and>
   poll_slept (pollGenerationJob failingEnv jobId onProgress) = 300000"
proof -
  have "\<forall>k job. 0 \<le> k \<and> k < maxAttempts \<and> jobEndpoint failingEnv jobId k = Ok job \<longrightarrow>
          status job \<noteq> ''completed''"
    by (simp add: failingEnv_def offlineEnv_def failedJob_def)
  from pollFrom_timeout [OF this, of onProgress] pollFrom_bounds [of failingEnv jobId onProgress 0]
  show ?thesis
    by (simp add: pollGenerationJob_def maxAttempts_def pollDelay_def)
qed

text \<open>
  Claim C2, evaluated on the code.  Against \<open>failingEnv\<close>, whose job-status endpoint
  answers \<open>failed\<close> with the message \<open>boom\<close>, every pass of the loop throws the error
  \<open>boom\<close> inside the \<open>try\<close> block, where the loop's own \<open>catch\<close> takes it.  The loop
  goes on for all 60 attempts (300 seconds of delays), and \<open>generate\<close> rejects with the
  timeout message, not with \<open>boom\<close>.  \<open>isGenerating\<close> is false once the cleanup timer
  has fired.
\<close>

theorem generate_failed_job_times_out:
  "pollOnce failingEnv ''job-1'' True k = ([], Caught ''boom'') \<and>
   gen_result (generate failingEnv False captured p ps g state) = Inl timeoutMessage \<and>
   timeoutMessage \<noteq> ''boom'' \<and>
   poll_requests (pollGenerationJob failingEnv ''job-1'' True) = 60 \<and>
   poll_slept (pollGenerationJob failingEnv ''job-1'' True) = 300000 \<and>
   isGenerating (gen_cleaned (generate failingEnv False captured p ps g state)) = False"
proof -
  have gen: "generateEndpoint failingEnv p g ps =
      Ok \<lparr>created_id = ''job-1'', created_project_id = None\<rparr>"
    by (simp add: failingEnv_def)
  have "gen_result (generate failingEnv False captured p ps g state) = Inl timeoutMessage"
    by (simp add: generate_def gen failing_poll failWith_def Let_def)
  moreover have "isGenerating (gen_cleaned (generate failingEnv False captured p ps g state)) = False"
    by (simp add: generate_def gen failing_poll failWith_def Let_def cleanup_def
          setIsGenerating_def setGenerationProgress_def)
  moreover have "timeoutMessage \<noteq> ''boom''"
    by (simp add: timeoutMessage_def)
  ultimately show ?thesis
    by (simp add: failing_pollOnce failing_poll)
qed

section \<open>Regenerating a frame in remote mode\<close>

text \<open>
  \<open>updateFrame\<close> replaces frames by a frame of the same id, so neither it nor
  \<open>regenerateFrame\<close> changes the list of frame ids of the current project (nor, with
  it, the number of frames).
\<close>

lemma updateFrame_keeps_ids:
  "map_option (\<lambda>p. map frame_id (frames p)) (currentProject (updateFrame now f state)) =
   map_option (\<lambda>p. map frame_id (frames p)) (currentProject state)"
  by (cases "currentProject state") (auto simp add: updateFrame_def writeBack_def)

lemma setIsGenerating_currentProject:
  "currentProject (setIsGenerating b state) = currentProject state"
  by (simp add: setIsGenerating_def)

lemma regenerateFrame_keeps_ids:
  "map_option (\<lambda>p. map frame_id (frames p))
     (currentProject (regen_store (regenerateFrame env demo captured err frameId ps state))) =
   map_option (\<lambda>p. map frame_id (frames p)) (currentProject state)"
  by (simp add: regenerateFrame_def regenFailed_def Let_def setIsGenerating_currentProject
        updateFrame_keeps_ids
      split: option.splits fetched.splits sum.splits list.splits)

lemma refining_poll:
  "poll_outcome (pollGenerationJob refiningEnv jobId False) =
     Inr [refinedA\<lparr>timestamp := 1735689600000\<rparr>,
          \<lparr>frame_id = ''b'', imageUrl = ''/uploads/b-refined.png'', prompt = ''Chase, darker'',
           params = defaultParams\<lparr>lighting := 25\<rparr>, timestamp = 1735689600000,
           frame_notes = None\<rparr>]"
  by (simp add: pollGenerationJob_def pollFrom.simps [of _ _ _ 0] maxAttempts_def pollOnce_def
        refiningEnv_def failingEnv_def offlineEnv_def completedJob_def normalizeFrames_def
        normalizeFrame_def rawA_def rawB_def rawParamsDefault_def normalizeParams_def numOr_def
        orNum_def truthyNum_def strOr_def orStr_def truthyStr_def refinedA_def defaultParams_def)

text \<open>
  Claim C7, evaluated on the code.  The store holds the frames \<open>a\<close> and \<open>b\<close>, and frame
  \<open>b\<close> is regenerated.  \<open>pollGenerationJob\<close> returns the frames of the whole project, so
  the first one is frame \<open>a\<close>.  The merged frame takes the id \<open>a\<close> from it, and
  \<open>updateFrame\<close> replaces the stored frame \<open>a\<close>: frame \<open>b\<close> is left exactly as it was,
  and the promise resolves to a frame whose id is \<open>a\<close>.  The number of frames is
  unchanged.
\<close>

theorem regenerateFrame_refines_first_frame:
  "regen_result (regenerateFrame refiningEnv False (Some projectP) None ''b'' ps stateP) =
     Inr (Some refinedA) \<and>
   frame_id refinedA = ''a'' \<and>
   map_option frames
     (currentProject
        (regen_store (regenerateFrame refiningEnv False (Some projectP) None ''b'' ps stateP))) =
     Some [refinedA, frameB] \<and>
   map frames
     (projects
        (regen_store (regenerateFrame refiningEnv False (Some projectP) None ''b'' ps stateP))) =
     [[refinedA, frameB]]"
proof -
  have found: "find (\<lambda>f. frame_id f = ''b'') (frames projectP) = Some frameB"
    by (simp add: projectP_def frameA_def frameB_def)
  have refine: "refineEndpoint refiningEnv ''b'' ps =
      Ok \<lparr>created_id = ''job-1'', created_project_id = None\<rparr>"
    by (simp add: refiningEnv_def failingEnv_def)
  have clock0: "clock refiningEnv 0 = 1700000000000"
    by (simp add: refiningEnv_def failingEnv_def offlineEnv_def)
  have merged: "(spreadFrame frameB (refinedA\<lparr>timestamp := 1735689600000\<rparr>))
      \<lparr>timestamp := real (clock refiningEnv 0)\<rparr> = refinedA"
    by (simp add: spreadFrame_def refinedA_def frameB_def clock0)
  have run: "regenerateFrame refiningEnv False (Some projectP) None ''b'' ps stateP =
      \<lparr>regen_result = Inr (Some refinedA), regen_error = None,
       regen_store =
         setIsGenerating False
           (updateFrame (clock refiningEnv 1) refinedA (setIsGenerating True stateP))\<rparr>"
    by (simp add: regenerateFrame_def found refine refining_poll merged Let_def)
  show ?thesis
    unfolding run
    by (simp add: updateFrame_def writeBack_def setIsGenerating_def stateP_def projectP_def
          refinedA_def frameA_def frameB_def)
qed

end
